theory Spec2Isabelle
  imports Complex_Main
begin

text \<open>
  A model of the detection and fusion code of the vulnerability scanner: the pattern
  matcher of the client (\<open>patternMatching.ts\<close>: the signature registry, \<open>detectPatterns\<close>
  and \<open>calculateConfidence\<close>), the merge of pattern and AI findings
  (\<open>combineAnalysisResults\<close> in the client's \<open>aiAnalysis.ts\<close>), and the fallback security
  score of the server (\<open>calculateFallbackScore\<close> in \<open>storage.ts\<close> and in the Gemini
  analysis module, with the validation that precedes it there). JavaScript numbers are
  real numbers in the model, line and column numbers are integers.
\<close>

section \<open>JavaScript strings\<close>

text \<open>
  A JavaScript string is a sequence of UTF-16 code units; the model uses \<^typ>\<open>string\<close>, so
  it covers the strings whose code units are all below 256 (ASCII and Latin-1). The string
  methods the scanner calls are written out below with the behaviour they have on such
  strings.
\<close>

definition code_unit :: "char \<Rightarrow> nat" where
  "code_unit c = of_char c"

text \<open>\<open>String.prototype.toLowerCase\<close>, one code unit at a time: \<open>A-Z\<close> and the Latin-1
  capitals \<open>0xC0-0xDE\<close> (without the multiplication sign \<open>0xD7\<close>) move up by 32.\<close>

definition toLowerCase_char :: "char \<Rightarrow> char" where
  "toLowerCase_char c =
     (let n = code_unit c
      in if (65 \<le> n \<and> n \<le> 90) \<or> (192 \<le> n \<and> n \<le> 222 \<and> n \<noteq> 215)
         then char_of (n + 32) else c)"

definition toLowerCase :: "string \<Rightarrow> string" where
  "toLowerCase s = map toLowerCase_char s"

text \<open>The characters \<open>trim\<close> strips (WhiteSpace and LineTerminator): tab, line feed,
  vertical tab, form feed, carriage return, space and no-break space.\<close>

definition isWhiteSpace :: "char \<Rightarrow> bool" where
  "isWhiteSpace c =
     (c \<in> set [CHR 0x09, CHR 0x0A, CHR 0x0B, CHR 0x0C, CHR 0x0D, CHR 0x20, CHR 0xA0])"

definition trimStart :: "string \<Rightarrow> string" where
  "trimStart s = dropWhile isWhiteSpace s"

definition trim :: "string \<Rightarrow> string" where
  "trim s = rev (dropWhile isWhiteSpace (rev (dropWhile isWhiteSpace s)))"

definition startsWith :: "string \<Rightarrow> string \<Rightarrow> bool" where
  "startsWith s p = (take (length p) s = p)"

fun includes_str :: "string \<Rightarrow> string \<Rightarrow> bool" where
  "includes_str [] sub = (sub = [])"
| "includes_str (c # cs) sub = (startsWith (c # cs) sub \<or> includes_str cs sub)"

text \<open>\<open>s.split(sep)\<close> for a one-character separator: never empty, \<open>"".split(sep)\<close>
  is \<open>[""]\<close>.\<close>

fun split_str :: "char \<Rightarrow> string \<Rightarrow> string list" where
  "split_str sep [] = [[]]"
| "split_str sep (c # cs) =
     (if c = sep then [] # split_str sep cs
      else (case split_str sep cs of w # ws \<Rightarrow> (c # w) # ws | [] \<Rightarrow> [[c]]))"

text \<open>\<open>s.indexOf(sub)\<close>: the index of the first occurrence, or -1.\<close>

fun indexOf :: "string \<Rightarrow> string \<Rightarrow> int" where
  "indexOf [] sub = (if sub = [] then 0 else -1)"
| "indexOf (c # cs) sub =
     (if startsWith (c # cs) sub then 0
      else (let r = indexOf cs sub in if r < 0 then -1 else r + 1))"

text \<open>A non-negative integer interpolated into a template literal: its decimal digits.\<close>

definition digit_char :: "nat \<Rightarrow> char" where
  "digit_char d = ''0123456789'' ! d"

function digits :: "nat \<Rightarrow> string" where
  "digits n = (if n < 10 then [digit_char n] else digits (n div 10) @ [digit_char (n mod 10)])"
  by pat_completeness auto
termination
  by (relation "measure id") auto

definition toString :: "int \<Rightarrow> string" where
  "toString i = (if i < 0 then CHR ''-'' # digits (nat (- i)) else digits (nat i))"

section \<open>Regular expressions\<close>

text \<open>
  The signatures are JavaScript regular expressions with the flags \<open>g\<close> and \<open>i\<close>. The
  constructs they use are: literal text, the classes \<open>.\<close>, \<open>\s\<close>, \<open>[...]\<close> and \<open>[^...]\<close>,
  the greedy quantifiers \<open>*\<close>, \<open>+\<close> and \<open>{n,}\<close> (always on a single class), sequence,
  alternation, the negative lookahead \<open>(?!...)\<close> and the word boundary \<open>\b\<close>. Groups only
  delimit alternatives: \<open>match\<close> with a global expression returns whole matches.
\<close>

datatype item = Single char | Range char char

datatype cls = Dot | Space | Set "item list" | NotSet "item list"

datatype regex =
    Lit string
  | Cls cls
  | Rep cls nat
  | Seq regex regex
  | Alt regex regex
  | NotAhead regex
  | WordBoundary

text \<open>
  With the flag \<open>i\<close> two code units match when their canonical forms agree; the canonical
  form is the upper-case code unit: \<open>a-z\<close> and the Latin-1 small letters \<open>0xE0-0xFE\<close> (without
  the division sign \<open>0xF7\<close>) move down by 32. (\<open>0xB5\<close> and \<open>0xFF\<close> have capitals beyond
  Latin-1 and \<open>0xDF\<close> has a two-letter capital; among the code units below 256 nothing else
  shares their canonical form, so they are left fixed.)
\<close>

definition canonicalize :: "char \<Rightarrow> char" where
  "canonicalize c =
     (let n = code_unit c
      in if (97 \<le> n \<and> n \<le> 122) \<or> (224 \<le> n \<and> n \<le> 254 \<and> n \<noteq> 247)
         then char_of (n - 32) else c)"

definition isLineTerminator :: "char \<Rightarrow> bool" where
  "isLineTerminator c = (c = CHR 0x0A \<or> c = CHR 0x0D)"

definition isWordChar :: "char \<Rightarrow> bool" where
  "isWordChar c =
     (let n = code_unit c
      in (97 \<le> n \<and> n \<le> 122) \<or> (65 \<le> n \<and> n \<le> 90) \<or> (48 \<le> n \<and> n \<le> 57) \<or> n = 95)"

definition inRange :: "char \<Rightarrow> char \<Rightarrow> char \<Rightarrow> bool" where
  "inRange lo hi c = (code_unit lo \<le> code_unit c \<and> code_unit c \<le> code_unit hi)"

text \<open>A class member matches \<open>c\<close> when some code unit it denotes has the canonical form
  of \<open>c\<close>; the code units with the canonical form of \<open>c\<close> are \<open>c\<close>, its capital and its
  small letter.\<close>

fun item_matches :: "item \<Rightarrow> char \<Rightarrow> bool" where
  "item_matches (Single a) c = (canonicalize a = canonicalize c)"
| "item_matches (Range lo hi) c =
     (inRange lo hi c \<or> inRange lo hi (canonicalize c) \<or> inRange lo hi (toLowerCase_char c))"

fun cls_matches :: "cls \<Rightarrow> char \<Rightarrow> bool" where
  "cls_matches Dot c = (\<not> isLineTerminator c)"
| "cls_matches Space c = isWhiteSpace c"
| "cls_matches (Set items) c = list_ex (\<lambda>r. item_matches r c) items"
| "cls_matches (NotSet items) c = (\<not> list_ex (\<lambda>r. item_matches r c) items)"

text \<open>
  A matcher state is the text matched so far (reversed) and the text still ahead. Each
  construct maps a state to the states it can end in, in the order in which a backtracking
  matcher tries them; the first state of the whole expression is the match.
\<close>

type_synonym mstate = "string \<times> string"

fun lit :: "string \<Rightarrow> mstate \<Rightarrow> mstate list" where
  "lit [] st = [st]"
| "lit (w # ws) (acc, []) = []"
| "lit (w # ws) (acc, c # cs) =
     (if canonicalize w = canonicalize c then lit ws (c # acc, cs) else [])"

text \<open>A greedy quantifier \<open>{lo,}\<close> on a class: the longest run first, then shorter ones,
  down to \<open>lo\<close> code units.\<close>

fun rep :: "cls \<Rightarrow> nat \<Rightarrow> mstate \<Rightarrow> mstate list" where
  "rep k lo (acc, []) = (if lo = 0 then [(acc, [])] else [])"
| "rep k lo (acc, c # cs) =
     (if cls_matches k c then rep k (lo - 1) (c # acc, cs) else [])
     @ (if lo = 0 then [(acc, c # cs)] else [])"

text \<open>\<open>ends r p st\<close>: \<open>p\<close> is the code unit before the start of the match, if any (the
  word boundary looks at it when nothing is matched yet).\<close>

fun ends :: "regex \<Rightarrow> char option \<Rightarrow> mstate \<Rightarrow> mstate list" where
  "ends (Lit w) p st = lit w st"
| "ends (Cls k) p (acc, rest) =
     (case rest of [] \<Rightarrow> [] | c # cs \<Rightarrow> if cls_matches k c then [(c # acc, cs)] else [])"
| "ends (Rep k lo) p st = rep k lo st"
| "ends (Seq a b) p st = concat (map (ends b p) (ends a p st))"
| "ends (Alt a b) p st = ends a p st @ ends b p st"
| "ends (NotAhead a) p st = (if ends a p st = [] then [st] else [])"
| "ends WordBoundary p (acc, rest) =
     (let left = (case acc of c # _ \<Rightarrow> isWordChar c
                  | [] \<Rightarrow> (case p of Some c \<Rightarrow> isWordChar c | None \<Rightarrow> False));
          right = (case rest of c # _ \<Rightarrow> isWordChar c | [] \<Rightarrow> False)
      in if left \<noteq> right then [(acc, rest)] else [])"

lemma rep_length:
  "(acc', rest') \<in> set (rep k lo (acc, rest)) \<Longrightarrow>
   length acc' + length rest' = length acc + length rest"
  by (induction rest arbitrary: acc lo) (auto split: if_splits)

lemma lit_length:
  "(acc', rest') \<in> set (lit w (acc, rest)) \<Longrightarrow>
   length acc' + length rest' = length acc + length rest"
  by (induction w "(acc, rest)" arbitrary: acc rest rule: lit.induct) (auto split: if_splits)

lemma ends_length:
  "(acc', rest') \<in> set (ends r p (acc, rest)) \<Longrightarrow>
   length acc' + length rest' = length acc + length rest"
proof (induction r arbitrary: acc rest acc' rest')
  case (Seq a b)
  then obtain m1 m2 where "(m1, m2) \<in> set (ends a p (acc, rest))"
    and "(acc', rest') \<in> set (ends b p (m1, m2))"
    by auto
  then show ?case using Seq.IH(1) Seq.IH(2) by metis
qed (auto split: if_splits list.splits simp: Let_def dest: rep_length lit_length)

text \<open>
  \<open>line.match(re)\<close> for a global \<open>re\<close>: starting from index 0, find the next position
  where the expression matches, record the matched text and go on from the end of the
  match (one code unit further after an empty match), until no position is left. The
  result \<open>null\<close> is the empty list.
\<close>

function matchAll :: "regex \<Rightarrow> char option \<Rightarrow> string \<Rightarrow> string list" where
  "matchAll r p rest =
     (case ends r p ([], rest) of
        [] \<Rightarrow> (case rest of [] \<Rightarrow> [] | c # cs \<Rightarrow> matchAll r (Some c) cs)
      | (acc, rest') # _ \<Rightarrow>
          rev acc # (case acc of
                       [] \<Rightarrow> (case rest of [] \<Rightarrow> [] | c # cs \<Rightarrow> matchAll r (Some c) cs)
                     | a # _ \<Rightarrow> matchAll r (Some a) rest'))"
  by pat_completeness auto
termination
proof (relation "measure (\<lambda>(r, p, rest). length rest)", goal_cases)
  case (4 r p rest x xs acc rest' a as)
  have "(acc, rest') \<in> set (ends r p ([], rest))" using 4 by simp
  from ends_length[OF this] 4 show ?case by simp
qed auto

definition match_js :: "string \<Rightarrow> regex \<Rightarrow> string list" where
  "match_js s r = matchAll r None s"

fun alts :: "regex list \<Rightarrow> regex" where
  "alts [] = NotAhead (Lit [])"
| "alts [r] = r"
| "alts (r # rs) = Alt r (alts rs)"

fun seqs :: "regex list \<Rightarrow> regex" where
  "seqs [] = Lit []"
| "seqs [r] = r"
| "seqs (r # rs) = Seq r (seqs rs)"

definition words :: "string list \<Rightarrow> regex" where
  "words ws = alts (map Lit ws)"

definition star :: "cls \<Rightarrow> regex" where
  "star k = Rep k 0"

definition quote :: cls where
  "quote = Set [Single (CHR 0x27), Single (CHR 0x22)]"

section \<open>patternMatching.ts\<close>

datatype Severity = CRITICAL | HIGH | MEDIUM | LOW

datatype DetectionMethod = PATTERN | AI | HYBRID

text \<open>The interface \<open>VulnerabilityPattern\<close>; its fields carry the prefix \<open>p_\<close>, since
  \<open>id\<close>, \<open>severity\<close> and \<open>suggestion\<close> are fields of a finding as well.\<close>

record VulnerabilityPattern =
  p_id :: string
  p_name :: string
  p_pattern :: regex
  p_severity :: Severity
  p_description :: string
  p_suggestion :: string
  p_languages :: "string list"

text \<open>The interface \<open>Vulnerability\<close> is declared in \<open>vulnerabilityScanner\<close>; its fields are
  those of the object literals in \<open>detectPatterns\<close> and \<open>analyzeWithAI\<close> (\<open>id'\<close> is the
  field \<open>id\<close>).\<close>

record Vulnerability =
  id' :: string
  type :: string
  severity :: Severity
  line :: int
  column :: int
  message :: string
  suggestion :: string
  confidence :: real
  detectionMethod :: DetectionMethod

definition sql_keywords :: regex where
  "sql_keywords = words [''SELECT'', ''INSERT'', ''UPDATE'', ''DELETE'', ''FROM'', ''WHERE'']"

definition sql_injection_1 :: VulnerabilityPattern where
  "sql_injection_1 = \<lparr>
     p_id = ''sql_injection_1'',
     p_name = ''SQL Injection - String Concatenation'',
     p_pattern = seqs [sql_keywords, star Dot, Lit ''+'', star Dot, Cls quote],
     p_severity = CRITICAL,
     p_description = ''SQL query constructed using string concatenation, vulnerable to SQL injection'',
     p_suggestion = ''Use parameterized queries or prepared statements instead of string concatenation'',
     p_languages = [''javascript'', ''typescript'', ''php'', ''python'', ''java'', ''c#'']\<rparr>"

definition sql_injection_2 :: VulnerabilityPattern where
  "sql_injection_2 = \<lparr>
     p_id = ''sql_injection_2'',
     p_name = ''SQL Injection - Template Literals'',
     p_pattern = seqs [sql_keywords, star Dot, Lit ''${'', star Dot, Lit ''}''],
     p_severity = CRITICAL,
     p_description = ''SQL query using template literals with variables, vulnerable to SQL injection'',
     p_suggestion = ''Use parameterized queries instead of template literals for SQL queries'',
     p_languages = [''javascript'', ''typescript'']\<rparr>"

definition sql_injection_3 :: VulnerabilityPattern where
  "sql_injection_3 = \<lparr>
     p_id = ''sql_injection_3'',
     p_name = ''SQL Injection - Dynamic Query Building'',
     p_pattern = seqs [Lit ''.'', words [''query'', ''execute'', ''executeSql''], star Space,
                       Lit ''('', star Space, Cls quote, star Space,
                       words [''SELECT'', ''INSERT'', ''UPDATE'', ''DELETE''], star Dot,
                       Cls (Set [Single (CHR ''+''), Single (CHR ''$'')])],
     p_severity = CRITICAL,
     p_description = ''Dynamic SQL query construction detected'',
     p_suggestion = ''Use ORM methods or parameterized queries'',
     p_languages = [''javascript'', ''typescript'', ''python'', ''java'']\<rparr>"

definition xss_1 :: VulnerabilityPattern where
  "xss_1 = \<lparr>
     p_id = ''xss_1'',
     p_name = ''XSS - innerHTML Assignment'',
     p_pattern = seqs [Lit ''.innerHTML'', star Space, Lit ''='', star Space,
                       NotAhead (seqs [Cls quote,
                                       star (NotSet [Single (CHR ''<''), Single (CHR ''>'')]),
                                       Cls quote])],
     p_severity = HIGH,
     p_description = ''Direct assignment to innerHTML without sanitization'',
     p_suggestion = ''Use textContent instead of innerHTML, or sanitize input with a library like DOMPurify'',
     p_languages = [''javascript'', ''typescript'']\<rparr>"

definition xss_2 :: VulnerabilityPattern where
  "xss_2 = \<lparr>
     p_id = ''xss_2'',
     p_name = ''XSS - Document Write'',
     p_pattern = seqs [Lit ''document.write'', star Space, Lit ''(''],
     p_severity = HIGH,
     p_description = ''Using document.write() which can lead to XSS vulnerabilities'',
     p_suggestion = ''Use safer DOM manipulation methods like createElement and appendChild'',
     p_languages = [''javascript'', ''typescript'']\<rparr>"

definition xss_3 :: VulnerabilityPattern where
  "xss_3 = \<lparr>
     p_id = ''xss_3'',
     p_name = ''XSS - Eval Function'',
     p_pattern = seqs [WordBoundary, Lit ''eval'', star Space, Lit ''(''],
     p_severity = CRITICAL,
     p_description = ''Using eval() function which can execute arbitrary code'',
     p_suggestion = ''Avoid using eval(). Use JSON.parse() for JSON data or other safe alternatives'',
     p_languages = [''javascript'', ''typescript'', ''python'']\<rparr>"

definition auth_1 :: VulnerabilityPattern where
  "auth_1 = \<lparr>
     p_id = ''auth_1'',
     p_name = ''Hardcoded Credentials'',
     p_pattern = seqs [words [''password'', ''passwd'', ''pwd'', ''secret'', ''key'', ''token'', ''api_key''],
                       star Space, Cls (Set [Single (CHR '':''), Single (CHR ''='')]), star Space,
                       Cls quote, Rep (NotSet [Single (CHR 0x27), Single (CHR 0x22)]) 3, Cls quote],
     p_severity = CRITICAL,
     p_description = ''Hardcoded credentials found in source code'',
     p_suggestion = ''Use environment variables or secure credential storage instead of hardcoding sensitive data'',
     p_languages = [''javascript'', ''typescript'', ''python'', ''java'', ''c#'', ''php'']\<rparr>"

definition auth_2 :: VulnerabilityPattern where
  "auth_2 = \<lparr>
     p_id = ''auth_2'',
     p_name = ''Weak Password Validation'',
     p_pattern = seqs [Lit ''password'', star Dot, Lit ''.length'', star Space,
                       Rep (Set [Single (CHR ''<''), Single (CHR ''>''), Single (CHR ''='')]) 1,
                       star Space, Cls (Set [Range (CHR ''1'') (CHR ''7'')]), WordBoundary],
     p_severity = MEDIUM,
     p_description = ''Weak password length validation (less than 8 characters)'',
     p_suggestion = ''Enforce strong password policies with minimum 8 characters, mixed case, numbers, and symbols'',
     p_languages = [''javascript'', ''typescript'', ''python'', ''java'', ''c#'']\<rparr>"

definition not_paren :: cls where
  "not_paren = NotSet [Single (CHR '')'')]"

definition auth_3 :: VulnerabilityPattern where
  "auth_3 = \<lparr>
     p_id = ''auth_3'',
     p_name = ''Missing Authentication Check'',
     p_pattern = seqs [Lit ''.'', words [''delete'', ''update'', ''create'', ''admin''], star Dot,
                       Lit ''('',
                       NotAhead (alts [Seq (star not_paren) (Lit ''auth''),
                                       Seq (star not_paren) (Lit ''token''),
                                       Seq (star not_paren) (Lit ''session'')])],
     p_severity = HIGH,
     p_description = ''Potentially sensitive operation without authentication check'',
     p_suggestion = ''Add proper authentication and authorization checks before sensitive operations'',
     p_languages = [''javascript'', ''typescript'', ''python'', ''java'', ''c#'', ''php'']\<rparr>"

definition crypto_1 :: VulnerabilityPattern where
  "crypto_1 = \<lparr>
     p_id = ''crypto_1'',
     p_name = ''Weak Cryptographic Algorithm'',
     p_pattern = seqs [WordBoundary, words [''md5'', ''sha1'', ''des'', ''rc4''], WordBoundary],
     p_severity = HIGH,
     p_description = ''Use of weak or deprecated cryptographic algorithm'',
     p_suggestion = ''Use strong cryptographic algorithms like SHA-256, AES-256, or bcrypt for hashing'',
     p_languages = [''javascript'', ''typescript'', ''python'', ''java'', ''c#'', ''php'']\<rparr>"

definition crypto_2 :: VulnerabilityPattern where
  "crypto_2 = \<lparr>
     p_id = ''crypto_2'',
     p_name = ''Hardcoded Encryption Key'',
     p_pattern = seqs [words [''encrypt'', ''decrypt'', ''cipher''], star Dot, Cls quote,
                       Rep (Set [Range (CHR ''a'') (CHR ''z''), Range (CHR ''A'') (CHR ''Z''),
                                 Range (CHR ''0'') (CHR ''9''), Single (CHR ''+''),
                                 Single (CHR ''/''), Single (CHR ''='')]) 16,
                       Cls quote],
     p_severity = CRITICAL,
     p_description = ''Hardcoded encryption key detected'',
     p_suggestion = ''Use secure key management systems and never hardcode encryption keys'',
     p_languages = [''javascript'', ''typescript'', ''python'', ''java'', ''c#'', ''php'']\<rparr>"

definition not_semicolon :: cls where
  "not_semicolon = NotSet [Single (CHR '';'')]"

definition input_1 :: VulnerabilityPattern where
  "input_1 = \<lparr>
     p_id = ''input_1'',
     p_name = ''Missing Input Validation'',
     p_pattern = seqs [Lit ''req.'', words [''body'', ''params'', ''query''], Lit ''.'',
                       Cls (Set [Range (CHR ''a'') (CHR ''z''), Range (CHR ''A'') (CHR ''Z''),
                                 Single (CHR ''_'')]),
                       star (Set [Range (CHR ''a'') (CHR ''z''), Range (CHR ''A'') (CHR ''Z''),
                                  Range (CHR ''0'') (CHR ''9''), Single (CHR ''_'')]),
                       NotAhead (seqs [star not_semicolon, Lit ''.'',
                                       words [''validate'', ''sanitize'', ''escape'', ''length'',
                                              ''match'', ''test'']])],
     p_severity = MEDIUM,
     p_description = ''Direct use of user input without validation'',
     p_suggestion = ''Validate and sanitize all user inputs before processing'',
     p_languages = [''javascript'', ''typescript'']\<rparr>"

definition input_2 :: VulnerabilityPattern where
  "input_2 = \<lparr>
     p_id = ''input_2'',
     p_name = ''Path Traversal Risk'',
     p_pattern = alts [Seq (Lit ''..'') (alts [Lit ''/'', Lit [CHR 0x5C]]),
                       Lit ''..%2f'', Lit ''..%5c''],
     p_severity = HIGH,
     p_description = ''Potential path traversal vulnerability'',
     p_suggestion = ''Validate file paths and restrict access to allowed directories only'',
     p_languages = [''javascript'', ''typescript'', ''python'', ''java'', ''c#'', ''php'']\<rparr>"

definition file_1 :: VulnerabilityPattern where
  "file_1 = \<lparr>
     p_id = ''file_1'',
     p_name = ''Unrestricted File Upload'',
     p_pattern = seqs [Lit ''.'', words [''upload'', ''multer'', ''formidable''],
                       NotAhead (seqs [star not_semicolon, Lit ''.'',
                                       words [''fileFilter'', ''limits'', ''fileSize'']])],
     p_severity = HIGH,
     p_description = ''File upload without proper restrictions'',
     p_suggestion = ''Implement file type validation, size limits, and virus scanning for uploads'',
     p_languages = [''javascript'', ''typescript'']\<rparr>"

definition info_1 :: VulnerabilityPattern where
  "info_1 = \<lparr>
     p_id = ''info_1'',
     p_name = ''Error Information Disclosure'',
     p_pattern = seqs [Lit ''.'', words [''stack'', ''stackTrace'', ''printStackTrace'', ''error''],
                       NotAhead (Seq (star not_semicolon) (Lit ''log''))],
     p_severity = MEDIUM,
     p_description = ''Potential information disclosure through error messages'',
     p_suggestion = ''Log detailed errors server-side but return generic error messages to users'',
     p_languages = [''javascript'', ''typescript'', ''python'', ''java'', ''c#'']\<rparr>"

definition session_1 :: VulnerabilityPattern where
  "session_1 = \<lparr>
     p_id = ''session_1'',
     p_name = ''Insecure Session Configuration'',
     p_pattern = alts [seqs [Lit ''session'', star Dot, Lit ''secure:'', star Space, Lit ''false''],
                       seqs [Lit ''session'', star Dot, Lit ''httpOnly:'', star Space, Lit ''false'']],
     p_severity = MEDIUM,
     p_description = ''Insecure session cookie configuration'',
     p_suggestion = ''Set secure: true and httpOnly: true for session cookies in production'',
     p_languages = [''javascript'', ''typescript'']\<rparr>"

definition cors_1 :: VulnerabilityPattern where
  "cors_1 = \<lparr>
     p_id = ''cors_1'',
     p_name = ''Permissive CORS Policy'',
     p_pattern = alts [seqs [Lit ''Access-Control-Allow-Origin'', star Dot, Lit ''*''],
                       seqs [Lit ''cors'', star Dot, Lit ''origin:'', star Space, Lit ''true'']],
     p_severity = MEDIUM,
     p_description = ''Overly permissive CORS policy'',
     p_suggestion = ''Restrict CORS to specific trusted domains instead of allowing all origins'',
     p_languages = [''javascript'', ''typescript'']\<rparr>"

definition VULNERABILITY_PATTERNS :: "VulnerabilityPattern list" where
  "VULNERABILITY_PATTERNS =
     [sql_injection_1, sql_injection_2, sql_injection_3, xss_1, xss_2, xss_3,
      auth_1, auth_2, auth_3, crypto_1, crypto_2, input_1, input_2, file_1, info_1,
      session_1, cors_1]"

text \<open>\<open>calculateConfidence(pattern, match, line)\<close>; the matched text is a parameter the
  function never reads.\<close>

definition calculateConfidence :: "VulnerabilityPattern \<Rightarrow> string \<Rightarrow> string \<Rightarrow> real" where
  "calculateConfidence pattern match line' =
     (let confidence = 70;
          confidence = (if p_severity pattern = CRITICAL then confidence + 20
                        else if p_severity pattern = HIGH then confidence + 15
                        else if p_severity pattern = MEDIUM then confidence + 10
                        else confidence);
          confidence = (if \<not> startsWith (trim line') ''//'' \<and> \<not> startsWith (trim line') ''/*''
                           \<and> \<not> startsWith (trim line') ''#''
                        then confidence + 10 else confidence);
          confidence = (if includes_str (toLowerCase line') ''test''
                           \<or> includes_str (toLowerCase line') ''mock''
                        then confidence - 20 else confidence)
      in min 100 (max 30 confidence))"

text \<open>The extension table of \<open>detectPatterns\<close>. (A file name whose last component is the
  name of a property every object inherits, such as \<open>constructor\<close>, reads that property
  instead; it is no language of any signature, like \<open>unknown\<close>.)\<close>

definition languageMap :: "string \<Rightarrow> string option" where
  "languageMap = map_of
     [(''js'', ''javascript''), (''jsx'', ''javascript''), (''ts'', ''typescript''),
      (''tsx'', ''typescript''), (''py'', ''python''), (''java'', ''java''),
      (''cs'', ''c#''), (''php'', ''php'')]"

definition fileExtension :: "string \<Rightarrow> string" where
  "fileExtension fileName = toLowerCase (last (split_str (CHR ''.'') fileName))"

definition currentLanguage :: "string \<Rightarrow> string" where
  "currentLanguage fileName =
     (case languageMap (fileExtension fileName) of Some l \<Rightarrow> l | None \<Rightarrow> ''unknown'')"

definition applicablePatterns :: "string \<Rightarrow> VulnerabilityPattern list" where
  "applicablePatterns fileName =
     filter (\<lambda>pattern. currentLanguage fileName \<in> set (p_languages pattern)
                       \<or> ''all'' \<in> set (p_languages pattern))
       VULNERABILITY_PATTERNS"

text \<open>The object pushed for one match of one signature on one line.\<close>

definition finding :: "nat \<Rightarrow> string \<Rightarrow> VulnerabilityPattern \<Rightarrow> string \<Rightarrow> Vulnerability" where
  "finding lineIndex line' pattern match =
     (let columnIndex = indexOf line' match
      in \<lparr>id' = p_id pattern @ ''_'' @ toString (int lineIndex) @ ''_'' @ toString columnIndex,
          type = p_name pattern,
          severity = p_severity pattern,
          line = int lineIndex + 1,
          column = columnIndex,
          message = p_description pattern,
          suggestion = p_suggestion pattern,
          confidence = calculateConfidence pattern match line',
          detectionMethod = PATTERN\<rparr>)"

text \<open>The inner \<open>forEach\<close> over the applicable signatures, for one line.\<close>

definition scanLine :: "VulnerabilityPattern list \<Rightarrow> nat \<Rightarrow> string \<Rightarrow> Vulnerability list" where
  "scanLine patterns lineIndex line' =
     concat (map (\<lambda>pattern. map (finding lineIndex line' pattern) (match_js line' (p_pattern pattern)))
               patterns)"

definition detectPatterns :: "string \<Rightarrow> string \<Rightarrow> Vulnerability list" where
  "detectPatterns code fileName =
     (let lines = split_str (CHR 0x0A) code
      in concat (map (\<lambda>(lineIndex, line'). scanLine (applicablePatterns fileName) lineIndex line')
                   (enumerate 0 lines)))"

text \<open>\<open>detectPatterns\<close> as JavaScript runs it, on arguments of any kind: \<open>code.split\<close> and
  \<open>fileName.split\<close> throw a \<open>TypeError\<close> when the argument is \<open>undefined\<close>, \<open>null\<close> or a
  number. (The TypeScript signature admits strings only.)\<close>

datatype jsvalue = JUndefined | JNull | JNumber real | JString string

datatype error = TypeError

definition detectPatterns_call :: "jsvalue \<Rightarrow> jsvalue \<Rightarrow> error + Vulnerability list" where
  "detectPatterns_call code fileName =
     (case code of
        JString c \<Rightarrow>
          (case fileName of
             JString f \<Rightarrow> Inr (detectPatterns c f)
           | _ \<Rightarrow> Inl TypeError)
      | _ \<Rightarrow> Inl TypeError)"

section \<open>aiAnalysis.ts (client)\<close>

text \<open>
  \<open>combineAnalysisResults\<close> copies the array \<open>patternResults\<close> but not its objects, and then
  assigns to fields of those objects. The model keeps the objects in a store; an array is a
  list of references (indices into the store), and a new object is put at the end of the
  store.
\<close>

type_synonym ref = nat

type_synonym store = "Vulnerability list"

text \<open>\<open>aiVuln.type.toLowerCase().split(' ')[0]\<close>\<close>

definition firstWord :: "string \<Rightarrow> string" where
  "firstWord t = (case split_str (CHR '' '') (toLowerCase t) of w # _ \<Rightarrow> w | [] \<Rightarrow> [])"

text \<open>The predicate of \<open>patternResults.some\<close>.\<close>

definition overlaps :: "Vulnerability \<Rightarrow> Vulnerability \<Rightarrow> bool" where
  "overlaps patternVuln aiVuln =
     (\<bar>line patternVuln - line aiVuln\<bar> \<le> 1
      \<and> includes_str (toLowerCase (type patternVuln)) (firstWord (type aiVuln)))"

text \<open>The predicate of \<open>patternResults.find\<close>.\<close>

definition nearby :: "Vulnerability \<Rightarrow> Vulnerability \<Rightarrow> bool" where
  "nearby patternVuln aiVuln = (\<bar>line patternVuln - line aiVuln\<bar> \<le> 1)"

text \<open>The body of \<open>aiResults.forEach\<close>, for the object at reference \<open>a\<close>.\<close>

definition combineStep :: "ref list \<Rightarrow> ref \<Rightarrow> store \<times> ref list \<Rightarrow> store \<times> ref list" where
  "combineStep patternResults a st =
     (let h = fst st; combined = snd st;
          hasOverlap = list_ex (\<lambda>r. overlaps (h ! r) (h ! a)) patternResults
      in if \<not> hasOverlap
         then (h @ [(h ! a)\<lparr>detectionMethod := HYBRID,
                              confidence := min (confidence (h ! a) + 10) 100\<rparr>],
               combined @ [length h])
         else (case find (\<lambda>r. nearby (h ! r) (h ! a)) patternResults of
                 None \<Rightarrow> (h, combined)
               | Some r \<Rightarrow>
                   (let h1 = h[r := (h ! r)\<lparr>confidence := min (confidence (h ! r) + 15) 100\<rparr>];
                        h2 = h1[r := (h1 ! r)\<lparr>detectionMethod := HYBRID\<rparr>];
                        h3 = (if suggestion (h2 ! a) \<noteq> [] \<and> suggestion (h2 ! a) \<noteq> suggestion (h2 ! r)
                              then h2[r := (h2 ! r)\<lparr>suggestion :=
                                     suggestion (h2 ! r) @ '' AI suggests: '' @ suggestion (h2 ! a)\<rparr>]
                              else h2)
                    in (h3, combined))))"

text \<open>The result is the final store with the returned array \<open>combined\<close>.\<close>

definition combineAnalysisResults :: "store \<Rightarrow> ref list \<Rightarrow> ref list \<Rightarrow> store \<times> ref list" where
  "combineAnalysisResults h patternResults aiResults =
     foldl (\<lambda>st a. combineStep patternResults a st) (h, patternResults) aiResults"

text \<open>The overlap test in the words of the specification: the lines are at most one apart
  and the first token of the pattern finding's type, case-insensitively, is a prefix of the
  first token of the semantic finding's type.\<close>

definition firstToken :: "string \<Rightarrow> string" where
  "firstToken t = takeWhile (\<lambda>c. \<not> isWhiteSpace c) (dropWhile isWhiteSpace (toLowerCase t))"

definition spec_overlap :: "Vulnerability \<Rightarrow> Vulnerability \<Rightarrow> bool" where
  "spec_overlap p j =
     (\<bar>line p - line j\<bar> \<le> 1 \<and> startsWith (firstToken (type j)) (firstToken (type p)))"

section \<open>Server: security score\<close>

text \<open>
  The interface \<open>Vulnerability\<close> of \<open>storage.ts\<close> and of the Gemini analysis module. The
  objects come from \<open>JSON.parse\<close>, so a field can hold what the interface does not promise:
  the severity is kept as the string it is, and a confidence that is absent is \<open>None\<close>.
\<close>

record ServerVulnerability =
  s_type :: string
  s_severity :: string
  s_line :: "int option"
  s_column :: "int option"
  s_message :: string
  s_suggestion :: "string option"
  s_confidence :: "real option"

text \<open>\<open>const weights = { critical: 25, high: 15, medium: 8, low: 3 }\<close>; a key that is not
  there reads as \<open>undefined\<close>.\<close>

definition weights :: "string \<Rightarrow> real option" where
  "weights = map_of [(''critical'', 25), (''high'', 15), (''medium'', 8), (''low'', 3)]"

text \<open>\<open>x || d\<close> for a number that may be absent: absent and 0 are falsy.\<close>

definition or_default :: "real option \<Rightarrow> real \<Rightarrow> real" where
  "or_default x d = (case x of None \<Rightarrow> d | Some v \<Rightarrow> if v = 0 then d else v)"

text \<open>\<open>Math.round\<close>: the nearest integer, halves upwards.\<close>

definition Math_round :: "real \<Rightarrow> real" where
  "Math_round x = of_int \<lfloor>x + 1 / 2\<rfloor>"

text \<open>
  \<open>calculateFallbackScore\<close> of \<open>storage.ts\<close>. Arithmetic with \<open>undefined\<close> gives \<open>NaN\<close>, which
  every later operation hands on; a number that may be \<open>NaN\<close> is a \<open>real option\<close> with
  \<open>None\<close> for \<open>NaN\<close>.
\<close>

definition add_penalty :: "real option \<Rightarrow> ServerVulnerability \<Rightarrow> real option" where
  "add_penalty penalty vuln =
     (case penalty of
        None \<Rightarrow> None
      | Some p \<Rightarrow> (case weights (s_severity vuln) of
                     None \<Rightarrow> None
                   | Some w \<Rightarrow> Some (p + w * or_default (s_confidence vuln) 0.8)))"

definition calculateFallbackScore_storage :: "ServerVulnerability list \<Rightarrow> real option" where
  "calculateFallbackScore_storage vulnerabilities =
     (if length vulnerabilities = 0 then Some 10.0
      else (case foldl add_penalty (Some 0) vulnerabilities of
              None \<Rightarrow> None
            | Some penalty \<Rightarrow>
                (let score = max 0 (10 - penalty / 10)
                 in Some (Math_round (score * 10) / 10))))"

text \<open>\<open>calculateFallbackScore\<close> of the Gemini analysis module.\<close>

definition add_weight :: "real option \<Rightarrow> ServerVulnerability \<Rightarrow> real option" where
  "add_weight total' vuln =
     (case total' of
        None \<Rightarrow> None
      | Some t \<Rightarrow> (case weights (s_severity vuln) of None \<Rightarrow> None | Some w \<Rightarrow> Some (t + w)))"

definition calculateFallbackScore_gemini :: "ServerVulnerability list \<Rightarrow> real option" where
  "calculateFallbackScore_gemini vulnerabilities =
     (case foldl add_weight (Some 0) vulnerabilities of
        None \<Rightarrow> None
      | Some penalty \<Rightarrow> Some (max 0 (100 - penalty)))"

text \<open>
  One element of \<open>analysis.vulnerabilities\<close> as the Gemini module reads it before it
  validates it: a string field is \<open>None\<close> when it is absent or no string, a number field
  is \<open>None\<close> when it is absent.
\<close>

record RawVulnerability =
  r_type :: "string option"
  r_severity :: "string option"
  r_line :: "int option"
  r_column :: "int option"
  r_message :: "string option"
  r_suggestion :: "string option"
  r_confidence :: "real option"

text \<open>\<open>s || d\<close> for a string that may be absent: absent and the empty string are falsy.\<close>

definition str_or_default :: "string option \<Rightarrow> string \<Rightarrow> string" where
  "str_or_default x d = (case x of None \<Rightarrow> d | Some s \<Rightarrow> if s = [] then d else s)"

definition int_or_default :: "int option \<Rightarrow> int \<Rightarrow> int" where
  "int_or_default x d = (case x of None \<Rightarrow> d | Some v \<Rightarrow> if v = 0 then d else v)"

text \<open>The function mapped over \<open>analysis.vulnerabilities\<close> in \<open>analyzeCodeSecurity\<close>.\<close>

definition normalize :: "RawVulnerability \<Rightarrow> ServerVulnerability" where
  "normalize vuln =
     \<lparr>s_type = str_or_default (r_type vuln) ''Unknown'',
      s_severity = (case r_severity vuln of
                      Some s \<Rightarrow> if s \<in> set [''low'', ''medium'', ''high'', ''critical''] then s else ''medium''
                    | None \<Rightarrow> ''medium''),
      s_line = Some (int_or_default (r_line vuln) 1),
      s_column = r_column vuln,
      s_message = str_or_default (r_message vuln) ''Security vulnerability detected'',
      s_suggestion = Some (str_or_default (r_suggestion vuln) ''Review and fix this issue''),
      s_confidence = Some (max 0 (min 1 (or_default (r_confidence vuln) 0.8)))\<rparr>"




section \<open>Notions used in the statements\<close>

text \<open>What the merge does to a semantic finding it appends, and to the pattern finding
  \<open>p\<close> it annotates with the semantic finding \<open>j\<close>.\<close>

definition novel :: "Vulnerability \<Rightarrow> Vulnerability" where
  "novel j = j\<lparr>detectionMethod := HYBRID, confidence := min (confidence j + 10) 100\<rparr>"

definition boost :: "Vulnerability \<Rightarrow> Vulnerability \<Rightarrow> Vulnerability" where
  "boost p j =
     p\<lparr>confidence := min (confidence p + 15) 100,
       detectionMethod := HYBRID,
       suggestion := (if suggestion j \<noteq> [] \<and> suggestion j \<noteq> suggestion p
                      then suggestion p @ '' AI suggests: '' @ suggestion j
                      else suggestion p)\<rparr>"

text \<open>Two objects describe the same finding: the merge may change the confidence, the
  detection method and the suggestion, nothing else.\<close>

definition same_finding :: "Vulnerability \<Rightarrow> Vulnerability \<Rightarrow> bool" where
  "same_finding v w =
     (id' v = id' w \<and> type v = type w \<and> severity v = severity w \<and> line v = line w
      \<and> column v = column w \<and> message v = message w)"

definition weight_of :: "string \<Rightarrow> real" where
  "weight_of sev = (case weights sev of Some w \<Rightarrow> w | None \<Rightarrow> 0)"

definition known_severity :: "string \<Rightarrow> bool" where
  "known_severity sev = (sev \<in> set [''low'', ''medium'', ''high'', ''critical''])"

definition well_typed :: "ServerVulnerability list \<Rightarrow> bool" where
  "well_typed vs = list_all (\<lambda>v. known_severity (s_severity v)) vs"



section \<open>Example data\<close>

definition sql_line :: string where
  "sql_line = ''\"SELECT * FROM users WHERE id = \" + userId''"

definition pattern_sql :: Vulnerability where
  "pattern_sql =
     \<lparr>id' = ''sql_injection_1_9_12'', type = ''SQL Injection'', severity = CRITICAL,
      line = 10, column = 12, message = ''SQL query constructed using string concatenation'',
      suggestion = ''Use parameterized queries'', confidence = 90, detectionMethod = PATTERN\<rparr>"

definition pattern_xss :: Vulnerability where
  "pattern_xss =
     \<lparr>id' = ''xss_2_9_0'', type = ''XSS - Document Write'', severity = HIGH,
      line = 10, column = 0, message = ''Using document.write()'',
      suggestion = ''Use createElement'', confidence = 95, detectionMethod = PATTERN\<rparr>"

definition ai_sql_risk :: Vulnerability where
  "ai_sql_risk =
     \<lparr>id' = ''ai_app.js_11_0'', type = ''SQL Injection Risk'', severity = HIGH,
      line = 11, column = 0, message = ''User input reaches the query'',
      suggestion = ''Bind the id as a parameter'', confidence = 80, detectionMethod = AI\<rparr>"

definition ai_injection :: Vulnerability where
  "ai_injection =
     \<lparr>id' = ''ai_app.js_10_0'', type = ''Injection Risk'', severity = HIGH,
      line = 10, column = 0, message = ''User input reaches the query'',
      suggestion = ''Bind the id as a parameter'', confidence = 80, detectionMethod = AI\<rparr>"

definition half_sure_critical :: ServerVulnerability where
  "half_sure_critical =
     \<lparr>s_type = ''SQL Injection'', s_severity = ''critical'', s_line = Some 3, s_column = None,
      s_message = ''query built from user input'', s_suggestion = None,
      s_confidence = Some (1 / 2)\<rparr>"

definition odd_severity :: RawVulnerability where
  "odd_severity =
     \<lparr>r_type = Some ''XSS'', r_severity = Some ''severe'', r_line = Some 7, r_column = None,
      r_message = None, r_suggestion = None, r_confidence = None\<rparr>"

section \<open>Evaluation of the character functions\<close>

text \<open>The character functions by the bits of the code unit, for evaluation: a letter has
  bit 6 set and bit 5 tells its case.\<close>

definition letterlike :: "bool \<Rightarrow> bool \<Rightarrow> bool \<Rightarrow> bool \<Rightarrow> bool \<Rightarrow> bool \<Rightarrow> bool" where
  "letterlike b0 b1 b2 b3 b4 b7 =
     (if b7 then \<not> (b4 \<and> b2 \<and> b1 \<and> b0)
      else (b0 \<or> b1 \<or> b2 \<or> b3 \<or> b4) \<and> \<not> (b4 \<and> b3 \<and> (b2 \<or> (b1 \<and> b0))))"

lemma canonicalize_code [code]:
  "canonicalize (Char b0 b1 b2 b3 b4 b5 b6 b7) =
     Char b0 b1 b2 b3 b4 (b5 \<and> \<not> (b6 \<and> letterlike b0 b1 b2 b3 b4 b7)) b6 b7"
  apply (cases b0; cases b1; cases b2; cases b3; cases b4; cases b5; cases b6; cases b7)
  apply (simp_all add: canonicalize_def code_unit_def letterlike_def char_of_def Let_def bit_0)
  done

lemma toLowerCase_char_code [code]:
  "toLowerCase_char (Char b0 b1 b2 b3 b4 b5 b6 b7) =
     Char b0 b1 b2 b3 b4 (b5 \<or> (b6 \<and> letterlike b0 b1 b2 b3 b4 b7)) b6 b7"
  apply (cases b0; cases b1; cases b2; cases b3; cases b4; cases b5; cases b6; cases b7)
  apply (simp_all add: toLowerCase_char_def code_unit_def letterlike_def char_of_def Let_def bit_0)
  done

lemma isWordChar_code [code]:
  "isWordChar (Char b0 b1 b2 b3 b4 b5 b6 b7) =
     (\<not> b7 \<and> (if b6 then letterlike b0 b1 b2 b3 b4 False \<or> (\<not> b5 \<and> b4 \<and> b3 \<and> b2 \<and> b1 \<and> b0)
                else b5 \<and> b4 \<and> \<not> (b3 \<and> (b2 \<or> b1))))"
  apply (cases b0; cases b1; cases b2; cases b3; cases b4; cases b5; cases b6; cases b7)
  apply (simp_all add: isWordChar_def code_unit_def letterlike_def Let_def)
  done

section \<open>Properties\<close>

lemma startsWith_trim_nonspace:
  assumes "p \<noteq> []" and "\<forall>c \<in> set p. \<not> isWhiteSpace c"
  shows "startsWith (trim s) p = startsWith (trimStart s) p"
proof -
  define t where "t = dropWhile isWhiteSpace s"
  have eq: "trim s = rev (dropWhile isWhiteSpace (rev t))" and ts: "trimStart s = t"
    by (simp_all add: trim_def trimStart_def t_def)
  obtain u where u: "t = rev (dropWhile isWhiteSpace (rev t)) @ u" and
    uw: "\<forall>c \<in> set u. isWhiteSpace c"
  proof
    show "t = rev (dropWhile isWhiteSpace (rev t)) @ rev (takeWhile isWhiteSpace (rev t))"
    proof -
      have "rev t = takeWhile isWhiteSpace (rev t) @ dropWhile isWhiteSpace (rev t)" by simp
      then have "rev (rev t) = rev (takeWhile isWhiteSpace (rev t) @ dropWhile isWhiteSpace (rev t))"
        by (rule arg_cong)
      then show ?thesis by (simp only: rev_rev_ident rev_append)
    qed
    show "\<forall>c \<in> set (rev (takeWhile isWhiteSpace (rev t))). isWhiteSpace c"
      by (auto dest: set_takeWhileD)
  qed
  define b where "b = rev (dropWhile isWhiteSpace (rev t))"
  have tb: "t = b @ u" using u by (simp add: b_def)
  have key: "(take (length p) b = p) = (take (length p) (b @ u) = p)"
  proof (cases "length p \<le> length b")
    case True
    then show ?thesis by simp
  next
    case False
    then have lb: "length b < length p" by simp
    have l: "take (length p) b \<noteq> p"
    proof
      assume "take (length p) b = p"
      then have "length (take (length p) b) = length p" by simp
      then show False using lb by simp
    qed
    have r: "take (length p) (b @ u) \<noteq> p"
    proof
      assume h: "take (length p) (b @ u) = p"
      then have "length (take (length p) (b @ u)) = length p" by simp
      then have un: "u \<noteq> []" using lb by auto
      have "p ! length b = take (length p) (b @ u) ! length b" using h by simp
      also have "\<dots> = (b @ u) ! length b" using lb by (simp only: nth_take)
      also have "\<dots> = u ! 0" by (simp add: nth_append)
      finally have "p ! length b = u ! 0" .
      moreover have "u ! 0 \<in> set u" using un by simp
      moreover have "p ! length b \<in> set p" using lb by simp
      ultimately show False using uw assms(2) by metis
    qed
    from l r show ?thesis by simp
  qed
  have "startsWith b p = startsWith t p"
    unfolding startsWith_def using key by (simp only: tb[symmetric])
  then show ?thesis by (simp only: eq ts b_def)
qed

lemma isWhiteSpace_markers:
  "\<not> isWhiteSpace (CHR ''/'')" "\<not> isWhiteSpace (CHR ''*'')" "\<not> isWhiteSpace (CHR ''#'')"
  by (simp_all add: isWhiteSpace_def code_unit_def)

text \<open>
  C4. The confidence scorer returns, clamped to [30, 100]: 70, plus 20 / 15 / 10 / 0 for
  severity critical / high / medium / low, plus 10 when the line with its leading white
  space trimmed does not start with \<open>//\<close>, \<open>/*\<close> or \<open>#\<close>, minus 20 when the lower-cased
  line contains \<open>test\<close> or \<open>mock\<close>; the result lies in [30, 100]. (The code trims both
  ends; for these three markers that is the same test.)
\<close>

theorem calculateConfidence_formula:
  "calculateConfidence pattern m line' =
     min 100 (max 30
       (70 + (case p_severity pattern of CRITICAL \<Rightarrow> 20 | HIGH \<Rightarrow> 15 | MEDIUM \<Rightarrow> 10 | LOW \<Rightarrow> 0)
           + (if startsWith (trimStart line') ''//'' \<or> startsWith (trimStart line') ''/*''
                 \<or> startsWith (trimStart line') ''#'' then 0 else 10)
           - (if includes_str (toLowerCase line') ''test'' \<or> includes_str (toLowerCase line') ''mock''
              then 20 else 0)))
   \<and> 30 \<le> calculateConfidence pattern m line' \<and> calculateConfidence pattern m line' \<le> 100"
proof -
  have t: "startsWith (trim line') ''//'' = startsWith (trimStart line') ''//''"
    "startsWith (trim line') ''/*'' = startsWith (trimStart line') ''/*''"
    "startsWith (trim line') ''#'' = startsWith (trimStart line') ''#''"
    by (rule startsWith_trim_nonspace; simp add: isWhiteSpace_markers)+
  show ?thesis
    unfolding calculateConfidence_def t Let_def
    by (cases "p_severity pattern") auto
qed

text \<open>
  C9. Every confidence the scorer produces lies in [50, 100]: the lowest reachable sum
  is 70 + 0 + 0 - 20 = 50, so the lower clamp at 30 never binds.
\<close>

theorem calculateConfidence_at_least_50:
  "50 \<le> calculateConfidence pattern m line' \<and> calculateConfidence pattern m line' \<le> 100"
  unfolding calculateConfidence_def Let_def by (cases "p_severity pattern") auto


subsection \<open>The pattern matcher\<close>

lemma match_js_empty_registry:
  "list_all (\<lambda>p. match_js [] (p_pattern p) = []) VULNERABILITY_PATTERNS"
  by code_simp

lemma scanLine_empty: "scanLine (applicablePatterns fileName) lineIndex [] = []"
proof -
  have "\<forall>p \<in> set (applicablePatterns fileName). match_js [] (p_pattern p) = []"
    using match_js_empty_registry by (auto simp: applicablePatterns_def list_all_iff)
  then show ?thesis by (simp add: scanLine_def)
qed

lemma detectPatterns_empty: "detectPatterns [] fileName = []"
  by (simp add: detectPatterns_def scanLine_empty)

text \<open>Some matches, with the backtracking they need: in \<open>xss_1\<close> the lookahead fails
  after \<open>\s*\<close> has taken the blank before a quoted string, and succeeds one step back.\<close>

lemma match_js_examples:
  "match_js ''eval(x) medieval(x) eval  (y)'' (p_pattern xss_3) = [''eval('', ''eval  ('']"
  "match_js ''a.innerHTML = \"abc\"; b.innerHTML = x; c.innerHTML=\"<b>\"'' (p_pattern xss_1)
     = [''.innerHTML ='', ''.innerHTML = '', ''.innerHTML='']"
  "match_js ''const apiKey = \"sk-1234567890abcdef\"; pwd: 'ab' '' (p_pattern auth_1)
     = [''Key = \"sk-1234567890abcdef\"'']"
  "match_js ''db.delete(user, auth); x.update(y)'' (p_pattern auth_3)
     = [''.delete(user, auth); x.update('']"
  "match_js ''a = req.body.name; b = req.query.id.length'' (p_pattern input_1)
     = [''req.body.name'']"
  "match_js ''md5 sha1_x des-rc4 xdes'' (p_pattern crypto_1) = [''md5'', ''des'', ''rc4'']"
  by code_simp+

lemma sql_line_matches_nothing:
  "list_all (\<lambda>p. match_js sql_line (p_pattern p) = []) VULNERABILITY_PATTERNS"
  by code_simp

lemma scanLine_sql_line: "scanLine (applicablePatterns fileName) lineIndex sql_line = []"
proof -
  have "\<forall>p \<in> set (applicablePatterns fileName). match_js sql_line (p_pattern p) = []"
    using sql_line_matches_nothing by (auto simp: applicablePatterns_def list_all_iff)
  then show ?thesis by (simp add: scanLine_def)
qed

text \<open>
  C2. On the line \<open>"SELECT * FROM users WHERE id = " + userId\<close>, scanned as \<open>app.js\<close>,
  \<open>detectPatterns\<close> returns no finding at all, although the line contains neither \<open>test\<close>
  nor \<open>mock\<close>: the signature \<open>sql_injection_1\<close> asks for a quote after the plus sign, and
  no other signature matches. Wherever the line stands in a source text and whatever the
  file is called, the scan of that line adds no finding.
\<close>

theorem detectPatterns_misses_sql_concatenation:
  "detectPatterns sql_line ''app.js'' = []
   \<and> \<not> includes_str (toLowerCase sql_line) ''test''
   \<and> \<not> includes_str (toLowerCase sql_line) ''mock''
   \<and> (\<forall>fileName lineIndex. scanLine (applicablePatterns fileName) lineIndex sql_line = [])"
proof -
  have "detectPatterns sql_line ''app.js'' = []
   \<and> \<not> includes_str (toLowerCase sql_line) ''test''
   \<and> \<not> includes_str (toLowerCase sql_line) ''mock''"
    by code_simp
  then show ?thesis using scanLine_sql_line by blast
qed

text \<open>With a quoted tail after the concatenated value the same signature fires, with
  confidence 100.\<close>

lemma detectPatterns_sql_concatenation_quoted:
  "map (\<lambda>v. (id' v, type v, severity v, detectionMethod v))
     (detectPatterns ''const q = \"SELECT * FROM users WHERE id = '\" + userId + \"'\";'' ''app.js'')
   = [(''sql_injection_1_0_11'', ''SQL Injection - String Concatenation'', CRITICAL, PATTERN)]"
  by code_simp

text \<open>
  C6, for arguments that are strings. For every source text and file name that are
  strings the call returns a finding list and does not raise, and the empty source text
  yields the empty finding list for every file name.
\<close>

theorem detectPatterns_strings_total:
  "(\<exists>vs. detectPatterns_call (JString code) (JString fileName) = Inr vs)
   \<and> detectPatterns_call (JString []) (JString fileName) = Inr []"
  by (simp add: detectPatterns_call_def detectPatterns_empty)

text \<open>With the source text absent the call raises; it does not return the empty list
  (C6 has it treated as empty input).\<close>

theorem detectPatterns_absent_source_raises:
  "detectPatterns_call JUndefined (JString ''app.js'') = Inl TypeError
   \<and> detectPatterns_call JUndefined (JString ''app.js'') \<noteq> Inr []"
  by (simp add: detectPatterns_call_def)

lemma count_list_map_le: "count_list ms m \<le> count_list (map f ms) (f m)"
  by (induction ms) auto

lemma count_list_append: "count_list (xs @ ys) x = count_list xs x + count_list ys x"
  by (induction xs) auto

lemma count_list_concat_le:
  "xs \<in> set xss \<Longrightarrow> count_list xs x \<le> count_list (concat xss) x"
  by (induction xss) (auto simp: count_list_append)

lemma enumerate_mem: "k < length xs \<Longrightarrow> (n + k, xs ! k) \<in> set (enumerate n xs)"
  by (simp add: in_set_enumerate_eq)

text \<open>\<open>indexOf\<close> is the position of the first occurrence.\<close>

lemma indexOf_first_occurrence:
  "indexOf s sub = int k \<Longrightarrow>
   startsWith (drop k s) sub \<and> (\<forall>j < k. \<not> startsWith (drop j s) sub)"
proof (induction s arbitrary: k)
  case Nil
  then show ?case by (auto simp: startsWith_def split: if_splits)
next
  case (Cons c cs)
  show ?case
  proof (cases "startsWith (c # cs) sub")
    case True
    with Cons.prems have "k = 0" by simp
    with True show ?thesis by simp
  next
    case False
    with Cons.prems have r: "indexOf cs sub + 1 = int k" "\<not> indexOf cs sub < 0"
      by (auto simp: Let_def split: if_splits)
    then obtain k' where k': "k = Suc k'" "indexOf cs sub = int k'"
      by (cases k) auto
    from Cons.IH[OF k'(2)] have
      ih: "startsWith (drop k' cs) sub" "\<forall>j < k'. \<not> startsWith (drop j cs) sub" by auto
    have "\<not> startsWith (drop j (c # cs)) sub" if "j < k" for j
    proof (cases j)
      case 0
      then show ?thesis using False by simp
    next
      case (Suc j')
      then show ?thesis using ih(2) that k'(1) by simp
    qed
    then show ?thesis using ih(1) k'(1) by simp
  qed
qed

text \<open>
  C10. For every line of the source text and every applicable signature, each matched
  text \<open>m\<close> is reported as the finding \<open>finding k line pattern m\<close> as often as it is
  matched on that line; the column of that finding is \<open>indexOf line m\<close>, the first
  occurrence of the text in the line (no earlier position of the line starts with \<open>m\<close>),
  and its id is built from the signature id, the line index and that column. So a text
  matched at two positions gives two findings with the same column and the same id.
\<close>

theorem detectPatterns_repeated_match:
  assumes "k < length (split_str (CHR 0x0A) code)"
    and "pattern \<in> set (applicablePatterns fileName)"
  shows "count_list (match_js (split_str (CHR 0x0A) code ! k) (p_pattern pattern)) m
         \<le> count_list (detectPatterns code fileName)
              (finding k (split_str (CHR 0x0A) code ! k) pattern m)
       \<and> column (finding k (split_str (CHR 0x0A) code ! k) pattern m)
           = indexOf (split_str (CHR 0x0A) code ! k) m
       \<and> id' (finding k (split_str (CHR 0x0A) code ! k) pattern m)
           = p_id pattern @ ''_'' @ toString (int k) @ ''_''
             @ toString (indexOf (split_str (CHR 0x0A) code ! k) m)
       \<and> (\<forall>col. indexOf (split_str (CHR 0x0A) code ! k) m = int col \<longrightarrow>
             startsWith (drop col (split_str (CHR 0x0A) code ! k)) m
             \<and> (\<forall>j < col. \<not> startsWith (drop j (split_str (CHR 0x0A) code ! k)) m))"
proof -
  define lines where "lines = split_str (CHR 0x0A) code"
  define l where "l = lines ! k"
  have a: "count_list (match_js l (p_pattern pattern)) m
        \<le> count_list (map (finding k l pattern) (match_js l (p_pattern pattern)))
             (finding k l pattern m)"
    by (rule count_list_map_le)
  have "map (finding k l pattern) (match_js l (p_pattern pattern))
        \<in> set (map (\<lambda>pattern. map (finding k l pattern) (match_js l (p_pattern pattern)))
                 (applicablePatterns fileName))"
    using assms(2) by auto
  then have b: "count_list (map (finding k l pattern) (match_js l (p_pattern pattern)))
                  (finding k l pattern m)
        \<le> count_list (scanLine (applicablePatterns fileName) k l) (finding k l pattern m)"
    unfolding scanLine_def by (rule count_list_concat_le)
  have "(k, l) \<in> set (enumerate 0 lines)"
    using assms(1) enumerate_mem[of k lines 0] by (simp add: lines_def l_def)
  then have "scanLine (applicablePatterns fileName) k l
      \<in> set (map (\<lambda>(lineIndex, ln). scanLine (applicablePatterns fileName) lineIndex ln)
               (enumerate 0 lines))"
    by force
  then have c: "count_list (scanLine (applicablePatterns fileName) k l) (finding k l pattern m)
        \<le> count_list (detectPatterns code fileName) (finding k l pattern m)"
    unfolding detectPatterns_def Let_def lines_def[symmetric] by (rule count_list_concat_le)
  from a b c have "count_list (match_js l (p_pattern pattern)) m
      \<le> count_list (detectPatterns code fileName) (finding k l pattern m)" by linarith
  then have "count_list (match_js l (p_pattern pattern)) m
      \<le> count_list (detectPatterns code fileName) (finding k l pattern m)
      \<and> column (finding k l pattern m) = indexOf l m
      \<and> id' (finding k l pattern m)
          = p_id pattern @ ''_'' @ toString (int k) @ ''_'' @ toString (indexOf l m)"
    by (simp add: finding_def Let_def)
  moreover have "\<forall>col. indexOf l m = int col \<longrightarrow>
      startsWith (drop col l) m \<and> (\<forall>j < col. \<not> startsWith (drop j l) m)"
    using indexOf_first_occurrence by blast
  ultimately show ?thesis
    unfolding l_def lines_def by blast
qed

lemma md5_twice:
  "split_str (CHR 0x0A) ''md5(x) + md5(y)'' = [''md5(x) + md5(y)'']"
  "crypto_1 \<in> set (applicablePatterns ''a.py'')"
  "match_js ''md5(x) + md5(y)'' (p_pattern crypto_1) = [''md5'', ''md5'']"
  "indexOf ''md5(x) + md5(y)'' ''md5'' = 0"
  "p_id crypto_1 @ ''_'' @ toString (int 0) @ ''_'' @ toString 0 = ''crypto_1_0_0''"
  by code_simp+

theorem detectPatterns_repeated_match_witness:
  "0 < length (split_str (CHR 0x0A) ''md5(x) + md5(y)'')
   \<and> crypto_1 \<in> set (applicablePatterns ''a.py'')
   \<and> 2 \<le> count_list (detectPatterns ''md5(x) + md5(y)'' ''a.py'')
            (finding 0 ''md5(x) + md5(y)'' crypto_1 ''md5'')
   \<and> column (finding 0 ''md5(x) + md5(y)'' crypto_1 ''md5'') = 0
   \<and> id' (finding 0 ''md5(x) + md5(y)'' crypto_1 ''md5'') = ''crypto_1_0_0''
   \<and> indexOf ''md5(x) + md5(y)'' ''md5'' = int 0
   \<and> startsWith (drop 0 ''md5(x) + md5(y)'') ''md5''"
proof -
  have k: "0 < length (split_str (CHR 0x0A) ''md5(x) + md5(y)'')"
    by (simp only: md5_twice(1)) simp
  have n: "split_str (CHR 0x0A) ''md5(x) + md5(y)'' ! 0 = ''md5(x) + md5(y)''"
    by (simp only: md5_twice(1) nth_Cons_0)
  have c: "count_list (match_js ''md5(x) + md5(y)'' (p_pattern crypto_1)) ''md5'' = 2"
    by (simp only: md5_twice(3)) simp
  have i: "indexOf ''md5(x) + md5(y)'' ''md5'' = int 0"
    unfolding md5_twice(4) by simp
  note t = detectPatterns_repeated_match[OF k md5_twice(2), of "''md5''", unfolded n]
  from t have "2 \<le> count_list (detectPatterns ''md5(x) + md5(y)'' ''a.py'')
            (finding 0 ''md5(x) + md5(y)'' crypto_1 ''md5'')"
    and "column (finding 0 ''md5(x) + md5(y)'' crypto_1 ''md5'') = 0"
    and "id' (finding 0 ''md5(x) + md5(y)'' crypto_1 ''md5'') = ''crypto_1_0_0''"
    unfolding c md5_twice(4) md5_twice(5) by blast+
  moreover from t have "indexOf ''md5(x) + md5(y)'' ''md5'' = int 0 \<longrightarrow>
           startsWith (drop 0 ''md5(x) + md5(y)'') ''md5''"
    by blast
  with i have "startsWith (drop 0 ''md5(x) + md5(y)'') ''md5''" by blast
  ultimately show ?thesis using k md5_twice(2) i by blast
qed

subsection \<open>The merge\<close>

lemma combineStep_novel:
  assumes "\<not> list_ex (\<lambda>r. overlaps (h ! r) (h ! a)) P"
  shows "combineStep P a (h, c) = (h @ [novel (h ! a)], c @ [length h])"
  using assms by (simp add: combineStep_def novel_def)

text \<open>When some pattern finding overlaps, the object that is changed is the first one
  within one line of the semantic finding, whatever its type.\<close>

lemma combineStep_boost:
  assumes ov: "list_ex (\<lambda>r. overlaps (h ! r) (h ! a)) P"
    and f: "find (\<lambda>r. nearby (h ! r) (h ! a)) P = Some r"
    and r: "r < length h"
  shows "combineStep P a (h, c) = (h[r := boost (h ! r) (h ! a)], c)"
proof (cases "a = r")
  case True
  then show ?thesis
    using ov f r by (simp add: combineStep_def boost_def Let_def)
next
  case False
  then show ?thesis
    using ov f r by (simp add: combineStep_def boost_def Let_def)
qed

lemma find_overlaps_list_ex:
  "find (\<lambda>r. overlaps (h ! r) j) P = Some r \<Longrightarrow> list_ex (\<lambda>r. overlaps (h ! r) j) P"
  by (induction P) (auto split: if_splits)

lemma overlap_has_nearby:
  "list_ex (\<lambda>r. overlaps (h ! r) j) P \<Longrightarrow> \<exists>r. find (\<lambda>r. nearby (h ! r) j) P = Some r"
  by (induction P) (auto simp: overlaps_def nearby_def)

lemma same_finding_refl: "same_finding v v"
  by (simp add: same_finding_def)

lemma same_finding_boost: "same_finding (boost p j) p"
  by (simp add: same_finding_def boost_def)

lemma same_finding_update:
  assumes "same_finding x (h ! r)"
  shows "k < length h \<Longrightarrow> same_finding (h[r := x] ! k) (h ! k)"
  using assms by (cases "k = r") (simp_all add: same_finding_refl)

lemma combineStep_preserves:
  assumes "combineStep P a (h, c) = (h', c')"
  shows "(\<exists>ys. c' = c @ ys) \<and> length h \<le> length h'
         \<and> (\<forall>r < length h. same_finding (h' ! r) (h ! r))"
proof (cases "list_ex (\<lambda>r. overlaps (h ! r) (h ! a)) P")
  case False
  then have "h' = h @ [novel (h ! a)]" "c' = c @ [length h]"
    using assms combineStep_novel[OF False, of c] by auto
  then show ?thesis by (auto simp: nth_append same_finding_def)
next
  case True
  then obtain r where f: "find (\<lambda>r. nearby (h ! r) (h ! a)) P = Some r"
    using overlap_has_nearby by blast
  show ?thesis
  proof (cases "r < length h")
    case True
    have "h' = h[r := boost (h ! r) (h ! a)]" "c' = c"
      using assms combineStep_boost[OF \<open>list_ex _ P\<close> f True, of c] by auto
    then show ?thesis
      using same_finding_update[OF same_finding_boost] by simp
  next
    case False
    then have "h' = h" "c' = c"
      using assms \<open>list_ex _ P\<close> f
      by (auto simp: combineStep_def Let_def list_update_beyond)
    then show ?thesis by (simp add: same_finding_def)
  qed
qed

lemma foldl_combineStep_preserves:
  assumes "foldl (\<lambda>st a. combineStep P a st) (h, c) S = (h', c')"
  shows "(\<exists>ys. c' = c @ ys) \<and> length h \<le> length h'
         \<and> (\<forall>r < length h. same_finding (h' ! r) (h ! r))"
  using assms
proof (induction S arbitrary: h c)
  case Nil
  then show ?case by (simp add: same_finding_def)
next
  case (Cons a S)
  obtain h1 c1 where s: "combineStep P a (h, c) = (h1, c1)"
    by (cases "combineStep P a (h, c)")
  from combineStep_preserves[OF s] obtain ys1 where
    1: "c1 = c @ ys1" "length h \<le> length h1" "\<forall>r < length h. same_finding (h1 ! r) (h ! r)"
    by blast
  from Cons.prems s have "foldl (\<lambda>st a. combineStep P a st) (h1, c1) S = (h', c')" by simp
  from Cons.IH[OF this] obtain ys2 where
    2: "c' = c1 @ ys2" "length h1 \<le> length h'" "\<forall>r < length h1. same_finding (h' ! r) (h1 ! r)"
    by blast
  have "\<forall>r < length h. same_finding (h' ! r) (h ! r)"
  proof (intro allI impI)
    fix r assume "r < length h"
    then have "same_finding (h1 ! r) (h ! r)" "same_finding (h' ! r) (h1 ! r)"
      using 1 2 by auto
    then show "same_finding (h' ! r) (h ! r)" by (simp add: same_finding_def)
  qed
  then show ?case using 1 2 by auto
qed

text \<open>
  C1, with the overlap test of the code. The merge runs the step over the semantic
  findings in input order, starting from the pattern findings. A pattern finding \<open>p\<close> overlaps the semantic finding
  \<open>j\<close> when their lines are at most one apart and the first space-delimited word of
  \<open>j.type\<close>, in lower case, occurs in the lower-cased \<open>p.type\<close>. If no pattern finding
  overlaps, a copy of \<open>j\<close> with method hybrid and confidence \<open>min (confidence + 10) 100\<close> is
  appended. If the first overlapping pattern finding is also the first pattern finding
  within one line of \<open>j\<close>, that object gets confidence \<open>min (confidence + 15) 100\<close> and
  method hybrid, and \<open>j.suggestion\<close>, when non-empty and different, is appended to its
  suggestion after \<open>" AI suggests: "\<close>; the array is left as it is.
\<close>

theorem combineStep_cases:
  "(\<not> list_ex (\<lambda>r. overlaps (h ! r) (h ! a)) P \<longrightarrow>
      combineStep P a (h, c) = (h @ [novel (h ! a)], c @ [length h]))
   \<and> (find (\<lambda>r. overlaps (h ! r) (h ! a)) P = Some r
        \<and> find (\<lambda>r. nearby (h ! r) (h ! a)) P = Some r \<and> r < length h \<longrightarrow>
      combineStep P a (h, c) = (h[r := boost (h ! r) (h ! a)], c))
   \<and> combineAnalysisResults h P S = foldl (\<lambda>st a. combineStep P a st) (h, P) S
   \<and> overlaps p j = (\<bar>line p - line j\<bar> \<le> 1
        \<and> includes_str (toLowerCase (type p)) (firstWord (type j)))"
  using combineStep_novel combineStep_boost find_overlaps_list_ex
  by (auto simp: combineAnalysisResults_def overlaps_def)

lemma scenario_overlap:
  "find (\<lambda>r. overlaps ([pattern_sql, ai_sql_risk] ! r) ([pattern_sql, ai_sql_risk] ! 1)) [0] = Some 0"
  "find (\<lambda>r. nearby ([pattern_sql, ai_sql_risk] ! r) ([pattern_sql, ai_sql_risk] ! 1)) [0] = Some 0"
  "\<not> list_ex (\<lambda>r. overlaps ([pattern_xss, ai_sql_risk] ! r) ([pattern_xss, ai_sql_risk] ! 1)) [0]"
  by code_simp+

theorem combineStep_cases_witness:
  "\<not> list_ex (\<lambda>r. overlaps ([pattern_xss, ai_sql_risk] ! r) ([pattern_xss, ai_sql_risk] ! 1)) [0]
   \<and> combineStep [0] 1 ([pattern_xss, ai_sql_risk], [0])
       = ([pattern_xss, ai_sql_risk, novel ai_sql_risk], [0, 2])
   \<and> find (\<lambda>r. overlaps ([pattern_sql, ai_sql_risk] ! r) ([pattern_sql, ai_sql_risk] ! 1)) [0] = Some 0
   \<and> find (\<lambda>r. nearby ([pattern_sql, ai_sql_risk] ! r) ([pattern_sql, ai_sql_risk] ! 1)) [0] = Some 0
   \<and> (0::nat) < length [pattern_sql, ai_sql_risk]
   \<and> combineStep [0] 1 ([pattern_sql, ai_sql_risk], [0])
       = ([boost pattern_sql ai_sql_risk, ai_sql_risk], [0])"
proof -
  have l: "(0::nat) < length [pattern_sql, ai_sql_risk]" by simp
  from combineStep_cases[of "[pattern_xss, ai_sql_risk]" 1 "[0]" "[0]"]
  have "\<not> list_ex (\<lambda>r. overlaps ([pattern_xss, ai_sql_risk] ! r) ([pattern_xss, ai_sql_risk] ! 1)) [0]
      \<longrightarrow> combineStep [0] 1 ([pattern_xss, ai_sql_risk], [0])
          = ([pattern_xss, ai_sql_risk] @ [novel ([pattern_xss, ai_sql_risk] ! 1)],
             [0] @ [length [pattern_xss, ai_sql_risk]])"
    by blast
  with scenario_overlap(3)
  have "combineStep [0] 1 ([pattern_xss, ai_sql_risk], [0])
          = ([pattern_xss, ai_sql_risk] @ [novel ([pattern_xss, ai_sql_risk] ! 1)],
             [0] @ [length [pattern_xss, ai_sql_risk]])"
    by blast
  moreover have "([pattern_xss, ai_sql_risk] @ [novel ([pattern_xss, ai_sql_risk] ! 1)],
             [0] @ [length [pattern_xss, ai_sql_risk]])
       = ([pattern_xss, ai_sql_risk, novel ai_sql_risk], [0, 2 :: nat])"
    by simp
  ultimately have a: "combineStep [0] 1 ([pattern_xss, ai_sql_risk], [0])
       = ([pattern_xss, ai_sql_risk, novel ai_sql_risk], [0, 2])"
    by (rule trans)
  from combineStep_cases[of "[pattern_sql, ai_sql_risk]" 1 "[0]" "[0]" 0]
  have "find (\<lambda>r. overlaps ([pattern_sql, ai_sql_risk] ! r) ([pattern_sql, ai_sql_risk] ! 1)) [0] = Some 0
        \<and> find (\<lambda>r. nearby ([pattern_sql, ai_sql_risk] ! r) ([pattern_sql, ai_sql_risk] ! 1)) [0] = Some 0
        \<and> 0 < length [pattern_sql, ai_sql_risk]
      \<longrightarrow> combineStep [0] 1 ([pattern_sql, ai_sql_risk], [0])
          = ([pattern_sql, ai_sql_risk]
               [0 := boost ([pattern_sql, ai_sql_risk] ! 0) ([pattern_sql, ai_sql_risk] ! 1)], [0])"
    by blast
  with scenario_overlap(1) scenario_overlap(2) l
  have "combineStep [0] 1 ([pattern_sql, ai_sql_risk], [0])
          = ([pattern_sql, ai_sql_risk]
               [0 := boost ([pattern_sql, ai_sql_risk] ! 0) ([pattern_sql, ai_sql_risk] ! 1)], [0])"
    by blast
  moreover have "([pattern_sql, ai_sql_risk]
               [0 := boost ([pattern_sql, ai_sql_risk] ! 0) ([pattern_sql, ai_sql_risk] ! 1)], [0::nat])
       = ([boost pattern_sql ai_sql_risk, ai_sql_risk], [0])"
    by simp
  ultimately have b: "combineStep [0] 1 ([pattern_sql, ai_sql_risk], [0])
       = ([boost pattern_sql ai_sql_risk, ai_sql_risk], [0])"
    by (rule trans)
  from a b l scenario_overlap show ?thesis by blast
qed

text \<open>The overlap test of C1, a prefix test between first tokens, is not the test of
  the code. The first token of \<open>"SQL Injection"\<close> is no prefix of the first token of
  \<open>"Injection Risk"\<close>, so by C1 there is no overlap and the semantic finding is appended;
  the code finds \<open>injection\<close> inside \<open>sql injection\<close>, marks the pattern finding hybrid and
  appends nothing.\<close>

theorem combineAnalysisResults_overlap_counterexample:
  "\<not> spec_overlap pattern_sql ai_injection
   \<and> snd (combineAnalysisResults [pattern_sql, ai_injection] [0] [1]) = [0]
   \<and> detectionMethod (fst (combineAnalysisResults [pattern_sql, ai_injection] [0] [1]) ! 0) = HYBRID"
  by code_simp

text \<open>An instance of \<open>combineStep_boost\<close>: the SQL finding of the semantic reviewer is
  credited to the XSS finding on the same line, which comes first in the array.\<close>

lemma combineAnalysisResults_credits_first_nearby:
  "map detectionMethod
     (fst (combineAnalysisResults [pattern_xss, pattern_sql, ai_sql_risk] [0, 1] [2]))
   = [HYBRID, PATTERN, AI]"
  by code_simp

text \<open>
  C7. The array the merge returns is at least as long as the array of pattern findings
  and begins with it: every pattern finding is still there, at its place. The objects of
  the store stay, each describing the same finding as before (the merge changes only
  confidence, detection method and suggestion).
\<close>

theorem combineAnalysisResults_keeps_patterns:
  "length P \<le> length (snd (combineAnalysisResults h P S))
   \<and> take (length P) (snd (combineAnalysisResults h P S)) = P
   \<and> length h \<le> length (fst (combineAnalysisResults h P S))
   \<and> (\<forall>r < length h. same_finding (fst (combineAnalysisResults h P S) ! r) (h ! r))"
proof -
  obtain h' c' where e: "combineAnalysisResults h P S = (h', c')"
    by (cases "combineAnalysisResults h P S")
  then have "foldl (\<lambda>st a. combineStep P a st) (h, P) S = (h', c')"
    by (simp add: combineAnalysisResults_def)
  from foldl_combineStep_preserves[OF this] show ?thesis
    unfolding e by auto
qed

theorem combineAnalysisResults_keeps_patterns_witness:
  "(0::nat) < length [pattern_sql, ai_sql_risk]
   \<and> take (length [0::nat]) (snd (combineAnalysisResults [pattern_sql, ai_sql_risk] [0] [1])) = [0]
   \<and> same_finding (fst (combineAnalysisResults [pattern_sql, ai_sql_risk] [0] [1]) ! 0)
        ([pattern_sql, ai_sql_risk] ! 0)"
proof -
  have l: "(0::nat) < length [pattern_sql, ai_sql_risk]" by simp
  from combineAnalysisResults_keeps_patterns[of "[0]" "[pattern_sql, ai_sql_risk]" "[1]"]
  have t: "take (length [0::nat]) (snd (combineAnalysisResults [pattern_sql, ai_sql_risk] [0] [1])) = [0]"
    and a: "\<forall>r < length [pattern_sql, ai_sql_risk].
          same_finding (fst (combineAnalysisResults [pattern_sql, ai_sql_risk] [0] [1]) ! r)
            ([pattern_sql, ai_sql_risk] ! r)"
    by blast+
  from a l have "same_finding (fst (combineAnalysisResults [pattern_sql, ai_sql_risk] [0] [1]) ! 0)
        ([pattern_sql, ai_sql_risk] ! 0)" by blast
  with l t show ?thesis by blast
qed

text \<open>
  C8. Merging with no semantic finding returns the array of pattern findings and leaves
  the store as it is: no object is changed.
\<close>

theorem combineAnalysisResults_empty:
  "combineAnalysisResults h P [] = (h, P)
   \<and> map (\<lambda>r. fst (combineAnalysisResults h P []) ! r) (snd (combineAnalysisResults h P []))
       = map (\<lambda>r. h ! r) P"
  by (simp add: combineAnalysisResults_def)

subsection \<open>The security score\<close>

text \<open>JavaScript numbers are modelled as real numbers: the sums, the division and the
  rounding below are exact.\<close>

lemma weights_known: "known_severity sev \<Longrightarrow> weights sev = Some (weight_of sev)"
  by (auto simp: known_severity_def weights_def weight_of_def)

lemma weight_of_values:
  "weight_of ''critical'' = 25" "weight_of ''high'' = 15" "weight_of ''medium'' = 8"
  "weight_of ''low'' = 3"
  by (simp_all add: weight_of_def weights_def)




lemma foldl_add_weight:
  "well_typed vs \<Longrightarrow>
   foldl add_weight (Some p) vs = Some (p + (\<Sum>v\<leftarrow>vs. weight_of (s_severity v)))"
proof (induction vs arbitrary: p)
  case Nil
  then show ?case by simp
next
  case (Cons v vs)
  then have k: "known_severity (s_severity v)" and w: "well_typed vs"
    by (simp_all add: well_typed_def)
  have "add_weight (Some p) v = Some (p + weight_of (s_severity v))"
    by (simp add: add_weight_def weights_known[OF k])
  then show ?case using Cons.IH[OF w] by (simp add: add.assoc)
qed


lemma gemini_score:
  assumes "well_typed vs"
  shows "calculateFallbackScore_gemini vs
     = Some (max 0 (100 - (\<Sum>v\<leftarrow>vs. weight_of (s_severity v))))"
  using assms by (simp add: calculateFallbackScore_gemini_def foldl_add_weight)













text \<open>In \<open>storage.ts\<close> the confidence is read as \<open>vuln.confidence || 0.8\<close>: a confidence
  of 0 counts as 0.8, as an absent one does.\<close>

lemma fallback_score_zero_confidence:
  "calculateFallbackScore_storage [half_sure_critical\<lparr>s_confidence := Some 0\<rparr>] = Some 8"
  by (simp add: calculateFallbackScore_storage_def add_penalty_def weights_def
      half_sure_critical_def or_default_def Math_round_def)

lemma normalize_known: "known_severity (s_severity (normalize raw))"
  by (auto simp: normalize_def known_severity_def split: option.splits)

text \<open>
  C5, with the default of the code. A finding whose severity is none of low, medium,
  high, critical, or is missing, leaves the validation of the Gemini module with severity medium and is
  scored with the weight 8; the score of validated findings is always a number.
\<close>

theorem normalize_unknown_severity:
  "(r_severity raw \<notin> Some ` set [''low'', ''medium'', ''high'', ''critical'']
      \<longrightarrow> s_severity (normalize raw) = ''medium'' \<and> weight_of (s_severity (normalize raw)) = 8)
   \<and> calculateFallbackScore_gemini (map normalize raws)
       = Some (max 0 (100 - (\<Sum>r\<leftarrow>raws. weight_of (s_severity (normalize r)))))"
proof -
  have "well_typed (map normalize raws)"
    by (simp add: well_typed_def list_all_iff normalize_known)
  from gemini_score[OF this] have "calculateFallbackScore_gemini (map normalize raws)
       = Some (max 0 (100 - (\<Sum>r\<leftarrow>raws. weight_of (s_severity (normalize r)))))"
    by (simp add: comp_def)
  moreover have "r_severity raw \<notin> Some ` set [''low'', ''medium'', ''high'', ''critical'']
      \<longrightarrow> s_severity (normalize raw) = ''medium''"
    by (auto simp: normalize_def split: option.splits)
  ultimately show ?thesis using weight_of_values by auto
qed

lemma odd_severity_unknown:
  "r_severity odd_severity \<notin> Some ` set [''low'', ''medium'', ''high'', ''critical'']"
  by (simp add: odd_severity_def)

theorem normalize_unknown_severity_witness:
  "r_severity odd_severity \<notin> Some ` set [''low'', ''medium'', ''high'', ''critical'']
   \<and> s_severity (normalize odd_severity) = ''medium''
   \<and> weight_of (s_severity (normalize odd_severity)) = 8"
  using normalize_unknown_severity[of odd_severity "[]"] odd_severity_unknown by blast

text \<open>An unknown severity is not scored as low, as C5 has it: \<open>severe\<close> is scored as
  medium (92 of 100), not as low (97 of 100).\<close>

theorem unknown_severity_not_low:
  "r_severity odd_severity \<notin> Some ` set [''low'', ''medium'', ''high'', ''critical'']
   \<and> s_severity (normalize odd_severity) \<noteq> ''low''
   \<and> calculateFallbackScore_gemini [normalize odd_severity] = Some 92
   \<and> calculateFallbackScore_gemini [normalize (odd_severity\<lparr>r_severity := Some ''low''\<rparr>)]
       = Some 97"
  by (simp add: calculateFallbackScore_gemini_def add_weight_def weights_def odd_severity_def
      normalize_def)

text \<open>\<open>storage.ts\<close> does not validate the severity: with an unknown one its score is
  \<open>NaN\<close>.\<close>

lemma fallback_score_storage_unknown_severity:
  "calculateFallbackScore_storage [half_sure_critical\<lparr>s_severity := ''severe''\<rparr>] = None"
  by (simp add: calculateFallbackScore_storage_def add_penalty_def weights_def
      half_sure_critical_def)


end
